theory Spec2Isabelle
  imports Main "HOL-Library.Sublist"
begin

section \<open>Values shared by the components\<close>

text \<open>
  A JavaScript string is modelled as a \<open>string\<close> holding its UTF-8 bytes. A prop, a stored
  item or an object field that is \<open>null\<close> or \<open>undefined\<close> is \<open>None\<close>. The check mark
  that ends two of the log lines is the three bytes of U+2714.
\<close>

definition check_mark :: string where
  "check_mark = [CHR 0xE2, CHR 0x9C, CHR 0x94]"

text \<open>
  Truthiness of a value that is a string or absent, as \<open>!privateKey\<close> and
  \<open>role?.toLowerCase() || "internal"\<close> test it: absent and the empty string are falsy.
\<close>

definition truthy :: "string option \<Rightarrow> bool" where
  "truthy v = (case v of None \<Rightarrow> False | Some s \<Rightarrow> s \<noteq> [])"

text \<open>The response metadata of the wire contract (\<open>res.data.meta\<close>).\<close>

record search_meta =
  total_matches :: int
  returned_count :: int
  execution_time_ms :: int
  truncated :: bool

text \<open>
  A property that the wire contract types as a string, with the text a template literal
  prints for it: the property may be missing (\<open>undefined\<close>), \<open>null\<close>, or a string.
\<close>

datatype js_text = Undefined | Null | Str string

definition template_text :: "js_text \<Rightarrow> string" where
  "template_text v = (case v of Undefined \<Rightarrow> ''undefined'' | Null \<Rightarrow> ''null'' | Str s \<Rightarrow> s)"

text \<open>
  A thrown value \<open>err\<close>. \<open>response_error\<close> is \<open>err.response?.data?.error\<close> when it is
  truthy: the structured error of the service, with its \<open>code\<close> and whatever else the
  payload holds (\<open>detail\<close>).
\<close>

record svc_error =
  code :: js_text
  detail :: string

record js_error =
  message :: string
  response_error :: "svc_error option"

record auditor =
  auditor_id :: string
  name :: string
  active_key_version :: int

text \<open>A request body: an object with string values, its keys in insertion order.\<close>

type_synonym payload = "(string \<times> string) list"

section \<open>SearchPage.jsx\<close>

record search_props =
  role :: "string option"
  auditor :: "auditor option"
  privateKey :: "string option"

text \<open>
  What \<open>handleSearch\<close> reads of a response \<open>res\<close> of \<open>api.post\<close>:
  \<open>res.data.data?.results\<close> and \<open>res.data.meta\<close>, each possibly missing. The body
  \<open>res.data\<close> itself is taken to be an object, as the wire contract has it, so that
  reading the two properties does not throw.
\<close>

record 'r api_response =
  data_results :: "'r list option"
  data_meta :: "search_meta option"

text \<open>
  The collaborators of \<open>handleSearch\<close>: the three functions imported from
  \<open>../utils/crypto\<close> and the \<open>post\<close> of \<open>../services/api\<close>. Neither module is part of
  the sources, so each is a parameter; a call that throws (or whose promise rejects)
  returns \<open>Inl\<close> of the thrown value.
\<close>

record 'r search_env =
  normalizeKeyword :: "string \<Rightarrow> js_error + string"
  sha256Hex :: "string \<Rightarrow> js_error + string"
  signHashHex :: "string \<Rightarrow> string \<Rightarrow> js_error + string"
  api_post :: "string \<Rightarrow> payload \<Rightarrow> js_error + 'r api_response"

text \<open>The six \<open>useState\<close> cells of the component.\<close>

record 'r search_state =
  query :: string
  field :: string
  results :: "'r list"
  meta :: "search_meta option"
  logs :: "string list"
  loading :: bool

text \<open>
  How a block of the \<open>try\<close> body ends: it runs through, it executes \<open>return\<close>, or it
  throws.
\<close>

datatype completion = Normal | Returned | Thrown js_error

text \<open>
  The result of one run of \<open>handleSearch\<close>: the state after its last setter, the
  \<open>api.post\<close> calls it made (URL and body, in order) and the values it passed to
  \<open>console.error\<close>.
\<close>

record 'r outcome =
  final :: "'r search_state"
  calls :: "(string \<times> payload) list"
  console :: "js_error list"

text \<open>\<open>setLogs(prev => [...prev, l])\<close>\<close>

definition add_log :: "string \<Rightarrow> 'r search_state \<Rightarrow> 'r search_state" where
  "add_log l st = st\<lparr>logs := logs st @ [l]\<rparr>"

text \<open>\<open>res.data.data?.results || []\<close>\<close>

definition results_or_empty :: "'r list option \<Rightarrow> 'r list" where
  "results_or_empty v = (case v of None \<Rightarrow> [] | Some rs \<Rightarrow> rs)"

text \<open>The block guarded by \<open>role === "internal"\<close> (lines 31 to 45).\<close>

definition internal_search ::
  "'r search_env \<Rightarrow> 'r search_state \<Rightarrow>
   completion \<times> 'r search_state \<times> (string \<times> payload) list" where
  "internal_search env st =
    (let st1 = add_log ''Generating HMAC trapdoor...'' st;
         body = [(field st, query st)];
         st2 = add_log ''Sending request to /api/search/internal/'' st1
     in case api_post env ''/api/search/internal/'' body of
          Inl err \<Rightarrow> (Thrown err, st2, [(''/api/search/internal/'', body)])
        | Inr res \<Rightarrow>
            (Normal,
             add_log (''Internal search complete '' @ check_mark)
               (st2\<lparr>results := results_or_empty (data_results res), meta := data_meta res\<rparr>),
             [(''/api/search/internal/'', body)]))"

text \<open>
  The block guarded by \<open>role === "external"\<close> (lines 50 to 93): the two fail-fast
  checks, then normalising, hashing, signing and the request, each stage announced in
  the log before it runs. Once \<open>!privateKey\<close> has been refuted the key is a non-empty
  string; the \<open>None\<close> branch of the case that binds it is never taken.
\<close>

definition external_search ::
  "'r search_env \<Rightarrow> search_props \<Rightarrow> 'r search_state \<Rightarrow>
   completion \<times> 'r search_state \<times> (string \<times> payload) list" where
  "external_search env props st =
    (if \<not> truthy (privateKey props)
     then (Returned, (add_log ''No auditor private key found'' st)\<lparr>loading := False\<rparr>, [])
     else case (privateKey props, auditor props) of
       (None, _) \<Rightarrow>
         (Returned, (add_log ''No auditor private key found'' st)\<lparr>loading := False\<rparr>, [])
     | (Some key, None) \<Rightarrow>
         (Returned, (add_log ''No auditor identity found'' st)\<lparr>loading := False\<rparr>, [])
     | (Some key, Some aud) \<Rightarrow>
         (let st1 = add_log ''Normalizing keyword...'' st in
          case normalizeKeyword env (query st) of
            Inl err \<Rightarrow> (Thrown err, st1, [])
          | Inr normalized \<Rightarrow>
              (let st2 = add_log ''Hashing keyword (SHA256)...'' st1 in
               case sha256Hex env normalized of
                 Inl err \<Rightarrow> (Thrown err, st2, [])
               | Inr keywordHash \<Rightarrow>
                   (let st3 = add_log ''Signing hash with RSA private key...'' st2 in
                    case signHashHex env keywordHash key of
                      Inl err \<Rightarrow> (Thrown err, st3, [])
                    | Inr signature \<Rightarrow>
                        (let body = [(''auditor_id'', auditor_id aud),
                                     (''keyword_hash'', keywordHash),
                                     (''signature'', signature)];
                             st4 = add_log ''Sending request to /api/search/external/'' st3
                         in case api_post env ''/api/search/external/'' body of
                              Inl err \<Rightarrow> (Thrown err, st4, [(''/api/search/external/'', body)])
                            | Inr res \<Rightarrow>
                                (Normal,
                                 add_log (''Encrypted results received '' @ check_mark)
                                   (st4\<lparr>results := results_or_empty (data_results res),
                                        meta := data_meta res\<rparr>),
                                 [(''/api/search/external/'', body)]))))))"

text \<open>
  The line the \<open>catch\<close> block appends (lines 98 to 105):
  \<open>`Error: ${err.response.data.error.code}`\<close> or the generic line.
\<close>

definition report_line :: "js_error \<Rightarrow> string" where
  "report_line err =
    (case response_error err of
       Some e \<Rightarrow> ''Error: '' @ template_text (code e)
     | None \<Rightarrow> ''Unknown error occurred'')"

text \<open>
  \<open>handleSearch\<close> (lines 19 to 109). The two role blocks follow each other; the second
  runs only when the first ran through. A thrown value reaches the \<open>catch\<close> block, and
  the \<open>finally\<close> block runs on every way out of the \<open>try\<close>.
\<close>

definition handleSearch ::
  "'r search_env \<Rightarrow> search_props \<Rightarrow> 'r search_state \<Rightarrow> 'r outcome" where
  "handleSearch env props st =
    (if query st = [] then \<lparr>final = st, calls = [], console = []\<rparr>
     else
       (let st0 = st\<lparr>loading := True, results := [], meta := None,
                     logs := [''Preparing search...'']\<rparr>;
            (c1, st1, calls1) =
              (if role props = Some ''internal'' then internal_search env st0
               else (Normal, st0, []));
            (c2, st2, calls2) =
              (if c1 = Normal
               then (if role props = Some ''external'' then external_search env props st1
                     else (Normal, st1, []))
               else (c1, st1, []))
        in case c2 of
             Thrown err \<Rightarrow>
               \<lparr>final = (add_log (report_line err) st2)\<lparr>loading := False\<rparr>,
                calls = calls1 @ calls2, console = [err]\<rparr>
           | _ \<Rightarrow> \<lparr>final = st2\<lparr>loading := False\<rparr>, calls = calls1 @ calls2, console = []\<rparr>))"

section \<open>The variant of the search page\<close>

text \<open>
  The second search page (the last component of \<open>part_000\<close>) has no \<open>field\<close>
  cell and takes only \<open>role\<close>. It reads the private key from \<open>localStorage\<close> and
  delegates to \<open>internalSearch\<close> and \<open>externalSearch\<close> of the service modules, which
  are not part of the sources and are parameters here. Of their answer \<open>res\<close> the page
  reads \<open>res.data.results\<close> and \<open>res.meta\<close>; \<open>res.data\<close> is taken to be an object.
  Names of this page carry the prefix \<open>v_\<close>.
\<close>

record 'r svc_response =
  svc_results :: "'r list option"
  svc_meta :: "search_meta option"

datatype svc_call = InternalSearchCall payload | ExternalSearchCall string string

record 'r variant_env =
  stored_private_key :: "string option"
  internalSearch :: "payload \<Rightarrow> js_error + 'r svc_response"
  externalSearch :: "string \<Rightarrow> string \<Rightarrow> js_error + 'r svc_response"

record 'r variant_state =
  v_query :: string
  v_results :: "'r list"
  v_meta :: "search_meta option"
  v_logs :: "string list"
  v_loading :: bool

record 'r variant_outcome =
  v_final :: "'r variant_state"
  v_calls :: "svc_call list"
  v_console :: "js_error list"

definition v_add_log :: "string \<Rightarrow> 'r variant_state \<Rightarrow> 'r variant_state" where
  "v_add_log l st = st\<lparr>v_logs := v_logs st @ [l]\<rparr>"

text \<open>The block guarded by \<open>role === "internal"\<close> (lines 276 to 295 of \<open>part_000\<close>).\<close>

definition v_internal_search ::
  "'r variant_env \<Rightarrow> 'r variant_state \<Rightarrow> completion \<times> 'r variant_state \<times> svc_call list" where
  "v_internal_search env st =
    (let body = [(''keyword'', v_query st)];
         st1 = v_add_log ''Generating HMAC trapdoor...'' st;
         st2 = v_add_log ''Sending to SSE engine...'' st1
     in case internalSearch env body of
          Inl err \<Rightarrow> (Thrown err, st2, [InternalSearchCall body])
        | Inr res \<Rightarrow>
            (Normal,
             v_add_log (''Internal search complete '' @ check_mark)
               ((v_add_log ''Decrypting records...'' st2)
                  \<lparr>v_results := results_or_empty (svc_results res), v_meta := svc_meta res\<rparr>),
             [InternalSearchCall body]))"

text \<open>The block guarded by \<open>role === "external"\<close> (lines 297 to 321 of \<open>part_000\<close>).\<close>

definition v_external_search ::
  "'r variant_env \<Rightarrow> 'r variant_state \<Rightarrow> completion \<times> 'r variant_state \<times> svc_call list" where
  "v_external_search env st =
    (if \<not> truthy (stored_private_key env)
     then (Returned, v_add_log ''No auditor key found'' st, [])
     else case stored_private_key env of
       None \<Rightarrow> (Returned, v_add_log ''No auditor key found'' st, [])
     | Some key \<Rightarrow>
         (let st1 = v_add_log ''Hashing keyword (SHA256)...'' st;
              st2 = v_add_log ''Signing hash (RSA)...'' st1
          in case externalSearch env (v_query st) key of
               Inl err \<Rightarrow> (Thrown err, st2, [ExternalSearchCall (v_query st) key])
             | Inr res \<Rightarrow>
                 (Normal,
                  v_add_log (''External search complete '' @ check_mark)
                    ((v_add_log ''Matching encrypted index...'' st2)
                       \<lparr>v_results := results_or_empty (svc_results res), v_meta := svc_meta res\<rparr>),
                  [ExternalSearchCall (v_query st) key])))"

text \<open>\<open>handleSearch\<close> of the variant (lines 267 to 329 of \<open>part_000\<close>).\<close>

definition v_handleSearch ::
  "'r variant_env \<Rightarrow> string option \<Rightarrow> 'r variant_state \<Rightarrow> 'r variant_outcome" where
  "v_handleSearch env r st =
    (if v_query st = [] then \<lparr>v_final = st, v_calls = [], v_console = []\<rparr>
     else
       (let st0 = st\<lparr>v_loading := True, v_results := [], v_meta := None,
                     v_logs := [''Preparing search...'']\<rparr>;
            (c1, st1, calls1) =
              (if r = Some ''internal'' then v_internal_search env st0
               else (Normal, st0, []));
            (c2, st2, calls2) =
              (if c1 = Normal
               then (if r = Some ''external'' then v_external_search env st1
                     else (Normal, st1, []))
               else (c1, st1, []))
        in case c2 of
             Thrown err \<Rightarrow>
               \<lparr>v_final = (v_add_log (''Error: '' @ message err) st2)\<lparr>v_loading := False\<rparr>,
                v_calls = calls1 @ calls2, v_console = [err]\<rparr>
           | _ \<Rightarrow>
               \<lparr>v_final = st2\<lparr>v_loading := False\<rparr>, v_calls = calls1 @ calls2,
                v_console = []\<rparr>))"

section \<open>What the search pages render\<close>

text \<open>
  A value placed in the page: text, a number, or a number followed by text (as
  \<open>`${meta.execution_time_ms} ms`\<close> prints it).
\<close>

datatype jsx_value = JText string | JNumber int | JNumberText int string

text \<open>One \<open>Info\<close> element: its label, its value and the class \<open>highlight\<close> adds.\<close>

record info =
  label :: string
  info_value :: jsx_value
  highlight :: "string option"

text \<open>
  A results card: the placeholder text when \<open>results.length === 0\<close>, else one box per
  record, each printing \<open>JSON.stringify(r, null, 2)\<close> of its record.
\<close>

datatype 'r results_panel = NoResults string | Records "'r list"

record 'r search_view =
  subtitle :: string
  field_dropdown :: "string option"
  input_value :: string
  button_label :: string
  button_disabled :: bool
  internal_results :: "'r results_panel option"
  external_panel :: "info list option"
  log_lines :: "string list"

text \<open>The card shown under \<open>role === "external" && meta\<close> (lines 190 to 230).\<close>

definition external_infos :: "string \<Rightarrow> search_meta \<Rightarrow> info list" where
  "external_infos q m =
    [\<lparr>label = ''Query'', info_value = JText q, highlight = None\<rparr>,
     \<lparr>label = ''Match Exists'',
      info_value = JText (if 0 < total_matches m then ''YES '' @ check_mark else ''NO''),
      highlight = Some (if 0 < total_matches m then ''text-green-600'' else ''text-red-600'')\<rparr>,
     \<lparr>label = ''Result Set Size'', info_value = JNumber (total_matches m), highlight = None\<rparr>,
     \<lparr>label = ''Response Padding'', info_value = JText ''Fixed-size protected response'',
      highlight = None\<rparr>,
     \<lparr>label = ''Execution Time'', info_value = JNumberText (execution_time_ms m) '' ms'',
      highlight = None\<rparr>,
     \<lparr>label = ''Data Visibility'', info_value = JText ''Encrypted (Auditor-level access)'',
      highlight = Some ''text-blue-600''\<rparr>]"

text \<open>The element tree \<open>SearchPage\<close> returns (lines 111 to 246), by its parts.\<close>

definition SearchPage :: "search_props \<Rightarrow> 'r search_state \<Rightarrow> 'r search_view" where
  "SearchPage props st =
    \<lparr>subtitle = (if role props = Some ''internal'' then ''Internal SSE Search''
                 else ''External Public-Key Audit Verification''),
     field_dropdown = (if role props = Some ''internal'' then Some (field st) else None),
     input_value = query st,
     button_label = (if loading st then ''Searching...'' else ''Search''),
     button_disabled = loading st,
     internal_results =
       (if role props = Some ''internal''
        then Some (if results st = [] then NoResults ''No results'' else Records (results st))
        else None),
     external_panel =
       (if role props = Some ''external''
        then (case meta st of None \<Rightarrow> None | Some m \<Rightarrow> Some (external_infos (query st) m))
        else None),
     log_lines = logs st\<rparr>"

record 'r variant_view =
  v_subtitle :: string
  v_input_value :: string
  v_button_label :: string
  v_button_disabled :: bool
  v_results_panel :: "'r results_panel"
  v_log_lines :: "string list"
  v_metrics :: "(string \<times> jsx_value) list option"

text \<open>The element tree of the variant (lines 331 to 419 of \<open>part_000\<close>).\<close>

definition v_SearchPage :: "string option \<Rightarrow> 'r variant_state \<Rightarrow> 'r variant_view" where
  "v_SearchPage r st =
    \<lparr>v_subtitle = (if r = Some ''internal'' then ''Internal SSE Search''
                   else ''External Public-Key Search''),
     v_input_value = v_query st,
     v_button_label = (if v_loading st then ''Searching...'' else ''Search''),
     v_button_disabled = v_loading st,
     v_results_panel =
       (if v_results st = [] then NoResults ''No results yet'' else Records (v_results st)),
     v_log_lines = v_logs st,
     v_metrics =
       (case v_meta st of
          None \<Rightarrow> None
        | Some m \<Rightarrow>
            Some [(''Matches'', JNumber (total_matches m)),
                  (''Returned'', JNumber (returned_count m)),
                  (''Time'', JNumberText (execution_time_ms m) '' ms''),
                  (''Truncated'', JText (if truncated m then ''Yes'' else ''No''))])\<rparr>"

text \<open>The initial values of the \<open>useState\<close> cells of the two pages.\<close>

definition initial_state :: "'r search_state" where
  "initial_state =
    \<lparr>query = [], field = ''pan'', results = [], meta = None,
     logs = [''Awaiting search query...''], loading = False\<rparr>"

definition v_initial_state :: "'r variant_state" where
  "v_initial_state =
    \<lparr>v_query = [], v_results = [], v_meta = None,
     v_logs = [''Awaiting search query...''], v_loading = False\<rparr>"

section \<open>MetricsPage\<close>

text \<open>
  \<open>String.prototype.toLowerCase\<close> on the ASCII letters; every other byte is kept. (The
  runtime also folds letters outside ASCII; none of them folds to a letter of
  \<open>internal\<close>.)
\<close>

definition lower_char :: "char \<Rightarrow> char" where
  "lower_char c =
    (let n = (of_char c :: nat)
     in if 65 \<le> n \<and> n \<le> 90 then char_of (n + 32) else c)"

definition toLowerCase :: "string \<Rightarrow> string" where
  "toLowerCase s = map lower_char s"

text \<open>\<open>role?.toLowerCase() || "internal"\<close> (line 6 of \<open>part_000\<close>) and line 7.\<close>

definition resolvedRole :: "string option \<Rightarrow> string" where
  "resolvedRole r =
    (let lowered = map_option toLowerCase r
     in if truthy lowered then (case lowered of Some s \<Rightarrow> s | None \<Rightarrow> ''internal'')
        else ''internal'')"

definition isInternal :: "string option \<Rightarrow> bool" where
  "isInternal r = (resolvedRole r = ''internal'')"

text \<open>
  The object under \<open>res.data?.data\<close>, by the properties the page reads of it; an object
  without a property has \<open>None\<close> there, so \<open>{}\<close> is \<open>empty_object\<close>.
\<close>

record system_metrics =
  sm_total_documents :: "int option"
  sm_total_tokens :: "int option"
  sm_avg_external_search_ms :: "int option"
  sm_external_searches_last_24h :: "int option"
  sm_failed_external_searches_last_24h :: "int option"
  sm_external_tokens :: "int option"
  sm_last_index_update :: "string option"

record metrics_data =
  system_metrics :: "system_metrics option"
  auditors :: "auditor list option"
  total_documents :: "int option"

definition empty_object :: metrics_data where
  "empty_object = \<lparr>system_metrics = None, auditors = None, total_documents = None\<rparr>"

definition empty_metrics :: system_metrics where
  "empty_metrics =
    \<lparr>sm_total_documents = None, sm_total_tokens = None, sm_avg_external_search_ms = None,
     sm_external_searches_last_24h = None, sm_failed_external_searches_last_24h = None,
     sm_external_tokens = None, sm_last_index_update = None\<rparr>"

text \<open>The four \<open>useState\<close> cells of \<open>MetricsPage\<close> and their initial values.\<close>

record metrics_state =
  internalData :: "metrics_data option"
  externalData :: "metrics_data option"
  m_loading :: bool
  m_error :: "string option"

definition initial_metrics_state :: metrics_state where
  "initial_metrics_state =
    \<lparr>internalData = None, externalData = None, m_loading = True, m_error = None\<rparr>"

text \<open>
  One run of \<open>fetchMetrics\<close>: the state after it, the URLs it passed to \<open>api.get\<close> and
  what it passed to \<open>console.error\<close>.
\<close>

record metrics_outcome =
  m_final :: metrics_state
  m_calls :: "string list"
  m_console :: "js_error list"

text \<open>
  \<open>fetchMetrics\<close> (lines 15 to 32 of \<open>part_000\<close>). \<open>api_get url\<close> is \<open>res.data?.data\<close>
  of the response, or the thrown value.
\<close>

definition fetchMetrics ::
  "(string \<Rightarrow> js_error + metrics_data option) \<Rightarrow> string option \<Rightarrow> metrics_state \<Rightarrow>
   metrics_outcome" where
  "fetchMetrics api_get r st =
    (let st1 = st\<lparr>m_loading := True\<rparr> in
     if isInternal r
     then (case api_get ''/api/metrics/internal/'' of
             Inr d \<Rightarrow>
               \<lparr>m_final = st1\<lparr>internalData := Some (case d of Some v \<Rightarrow> v | None \<Rightarrow> empty_object),
                              m_loading := False\<rparr>,
                m_calls = [''/api/metrics/internal/''], m_console = []\<rparr>
           | Inl err \<Rightarrow>
               \<lparr>m_final = st1\<lparr>m_error := Some ''Failed to load metrics'', m_loading := False\<rparr>,
                m_calls = [''/api/metrics/internal/''], m_console = [err]\<rparr>)
     else (case api_get ''/api/metrics/external/'' of
             Inr d \<Rightarrow>
               \<lparr>m_final = st1\<lparr>externalData := Some (case d of Some v \<Rightarrow> v | None \<Rightarrow> empty_object),
                              m_loading := False\<rparr>,
                m_calls = [''/api/metrics/external/''], m_console = []\<rparr>
           | Inl err \<Rightarrow>
               \<lparr>m_final = st1\<lparr>m_error := Some ''Failed to load metrics'', m_loading := False\<rparr>,
                m_calls = [''/api/metrics/external/''], m_console = [err]\<rparr>))"

text \<open>\<open>safe(val)\<close> with its default fallback \<open>0\<close> (lines 54 and 55 of \<open>part_000\<close>).\<close>

definition safe :: "int option \<Rightarrow> int" where
  "safe v = (case v of Some n \<Rightarrow> n | None \<Rightarrow> 0)"

text \<open>
  What \<open>MetricsPage\<close> returns (lines 48 to 214 of \<open>part_000\<close>): the loading line, the
  error line, the restricted external view with its one number, or the internal view,
  whose cards print the fields of \<open>systemMetrics\<close> and \<open>auditors\<close>.
\<close>

datatype metrics_view =
  LoadingView string
| ErrorView string
| ExternalView string int
| InternalView system_metrics "auditor list"

definition MetricsPage :: "string option \<Rightarrow> metrics_state \<Rightarrow> metrics_view" where
  "MetricsPage r st =
    (if m_loading st then LoadingView ''Loading metrics...''
     else if truthy (m_error st)
     then ErrorView (case m_error st of Some e \<Rightarrow> e | None \<Rightarrow> [])
     else if \<not> isInternal r
     then ExternalView ''External view (restricted)''
            (safe (case externalData st of Some d \<Rightarrow> total_documents d | None \<Rightarrow> None))
     else InternalView
            (case internalData st of
               Some d \<Rightarrow> (case system_metrics d of Some m \<Rightarrow> m | None \<Rightarrow> empty_metrics)
             | None \<Rightarrow> empty_metrics)
            (case internalData st of
               Some d \<Rightarrow> (case auditors d of Some a \<Rightarrow> a | None \<Rightarrow> [])
             | None \<Rightarrow> []))"

section \<open>The request body on the wire\<close>

text \<open>
  \<open>JSON.stringify\<close> of a request body, as the HTTP client serialises an object: every
  key and value is a quoted string in which the quote, the backslash and the control
  characters are escaped.
\<close>

definition hex_digit :: "nat \<Rightarrow> char" where
  "hex_digit n = ''0123456789abcdef'' ! (n mod 16)"

definition json_escape :: "char \<Rightarrow> string" where
  "json_escape c =
    (if c = CHR 0x22 then [CHR 0x5C, CHR 0x22]
     else if c = CHR 0x5C then [CHR 0x5C, CHR 0x5C]
     else if c = CHR 0x08 then [CHR 0x5C, CHR ''b'']
     else if c = CHR 0x0C then [CHR 0x5C, CHR ''f'']
     else if c = CHR 0x0A then [CHR 0x5C, CHR ''n'']
     else if c = CHR 0x0D then [CHR 0x5C, CHR ''r'']
     else if c = CHR 0x09 then [CHR 0x5C, CHR ''t'']
     else if (of_char c :: nat) < 32
     then [CHR 0x5C, CHR ''u'', CHR ''0'', CHR ''0'',
           hex_digit ((of_char c :: nat) div 16), hex_digit (of_char c)]
     else [c])"

definition json_string :: "string \<Rightarrow> string" where
  "json_string s = [CHR 0x22] @ concat (map json_escape s) @ [CHR 0x22]"

fun json_members :: "payload \<Rightarrow> string" where
  "json_members [] = []"
| "json_members [(k, v)] = json_string k @ '':'' @ json_string v"
| "json_members ((k, v) # kvs) = json_string k @ '':'' @ json_string v @ '','' @ json_members kvs"

definition JSON_stringify :: "payload \<Rightarrow> string" where
  "JSON_stringify body = ''{'' @ json_members body @ ''}''"

section \<open>Notions the statements use\<close>

text \<open>
  The stages of an external search, and the log a run has written once a stage has
  been announced (\<open>handleSearch\<close> of \<open>SearchPage.jsx\<close> announces each stage before the
  stage runs).
\<close>

datatype stage = Preparing | Normalizing | Hashing | Signing | AwaitingResponse

fun announced :: "stage \<Rightarrow> string list" where
  "announced Preparing = [''Preparing search...'']"
| "announced Normalizing = [''Preparing search...'', ''Normalizing keyword...'']"
| "announced Hashing =
     [''Preparing search...'', ''Normalizing keyword...'', ''Hashing keyword (SHA256)...'']"
| "announced Signing =
     [''Preparing search...'', ''Normalizing keyword...'', ''Hashing keyword (SHA256)...'',
      ''Signing hash with RSA private key...'']"
| "announced AwaitingResponse =
     [''Preparing search...'', ''Normalizing keyword...'', ''Hashing keyword (SHA256)...'',
      ''Signing hash with RSA private key...'', ''Sending request to /api/search/external/'']"

text \<open>
  An external search with a key and an identity fails at a stage with \<open>err\<close> when the
  collaborator of that stage throws \<open>err\<close> after the earlier ones have answered. Nothing
  can throw while preparing: that stage only calls setters.
\<close>

definition fails_at ::
  "'r search_env \<Rightarrow> search_props \<Rightarrow> 'r search_state \<Rightarrow> stage \<Rightarrow> js_error \<Rightarrow> bool" where
  "fails_at env props st s err =
    (case (privateKey props, auditor props) of
       (Some key, Some aud) \<Rightarrow>
         key \<noteq> [] \<and>
         (case s of
            Preparing \<Rightarrow> False
          | Normalizing \<Rightarrow> normalizeKeyword env (query st) = Inl err
          | Hashing \<Rightarrow>
              (case normalizeKeyword env (query st) of
                 Inr n \<Rightarrow> sha256Hex env n = Inl err
               | Inl _ \<Rightarrow> False)
          | Signing \<Rightarrow>
              (case normalizeKeyword env (query st) of
                 Inr n \<Rightarrow>
                   (case sha256Hex env n of
                      Inr h \<Rightarrow> signHashHex env h key = Inl err
                    | Inl _ \<Rightarrow> False)
               | Inl _ \<Rightarrow> False)
          | AwaitingResponse \<Rightarrow>
              (case normalizeKeyword env (query st) of
                 Inr n \<Rightarrow>
                   (case sha256Hex env n of
                      Inr h \<Rightarrow>
                        (case signHashHex env h key of
                           Inr sg \<Rightarrow>
                             api_post env ''/api/search/external/''
                               [(''auditor_id'', auditor_id aud), (''keyword_hash'', h),
                                (''signature'', sg)] = Inl err
                         | Inl _ \<Rightarrow> False)
                    | Inl _ \<Rightarrow> False)
               | Inl _ \<Rightarrow> False))
     | _ \<Rightarrow> False)"

text \<open>
  Where a started search of \<open>SearchPage.jsx\<close> fails, and with what: the first
  collaborator call of the run that throws, with the stage it belongs to (the request of
  an internal search counts as awaiting the response). \<open>None\<close> when no call throws or
  none is made.
\<close>

definition failure_point ::
  "'r search_env \<Rightarrow> search_props \<Rightarrow> 'r search_state \<Rightarrow> (stage \<times> js_error) option" where
  "failure_point env props st =
    (if role props = Some ''internal''
     then (case api_post env ''/api/search/internal/'' [(field st, query st)] of
             Inl err \<Rightarrow> Some (AwaitingResponse, err)
           | Inr _ \<Rightarrow> None)
     else if role props = Some ''external''
     then (case (privateKey props, auditor props) of
             (Some key, Some aud) \<Rightarrow>
               if key = [] then None
               else (case normalizeKeyword env (query st) of
                       Inl err \<Rightarrow> Some (Normalizing, err)
                     | Inr n \<Rightarrow>
                         (case sha256Hex env n of
                            Inl err \<Rightarrow> Some (Hashing, err)
                          | Inr h \<Rightarrow>
                              (case signHashHex env h key of
                                 Inl err \<Rightarrow> Some (Signing, err)
                               | Inr sg \<Rightarrow>
                                   (case api_post env ''/api/search/external/''
                                           [(''auditor_id'', auditor_id aud),
                                            (''keyword_hash'', h), (''signature'', sg)] of
                                      Inl err \<Rightarrow> Some (AwaitingResponse, err)
                                    | Inr _ \<Rightarrow> None))))
           | _ \<Rightarrow> None)
     else None)"

text \<open>The same for the variant, whose one collaborator call per role has no stage.\<close>

definition v_failure_point ::
  "'r variant_env \<Rightarrow> string option \<Rightarrow> 'r variant_state \<Rightarrow> js_error option" where
  "v_failure_point env r st =
    (if r = Some ''internal''
     then (case internalSearch env [(''keyword'', v_query st)] of
             Inl err \<Rightarrow> Some err
           | Inr _ \<Rightarrow> None)
     else if r = Some ''external''
     then (case stored_private_key env of
             Some key \<Rightarrow>
               if key = [] then None
               else (case externalSearch env (v_query st) key of
                       Inl err \<Rightarrow> Some err
                     | Inr _ \<Rightarrow> None)
           | None \<Rightarrow> None)
     else None)"

text \<open>
  The log an internal search of \<open>SearchPage.jsx\<close> has written when its request is made,
  and the log a search of the variant has written when its service is called.
\<close>

definition internal_announced :: "string list" where
  "internal_announced =
    [''Preparing search...'', ''Generating HMAC trapdoor...'',
     ''Sending request to /api/search/internal/'']"

definition v_announced :: "string option \<Rightarrow> string list" where
  "v_announced r =
    (if r = Some ''internal''
     then [''Preparing search...'', ''Generating HMAC trapdoor...'', ''Sending to SSE engine...'']
     else [''Preparing search...'', ''Hashing keyword (SHA256)...'', ''Signing hash (RSA)...''])"

text \<open>
  A session log written from the role, the presence of a key and of an identity, and the
  failure point alone: neither the keyword nor the key is among its arguments.
\<close>

definition session_log ::
  "string option \<Rightarrow> bool \<Rightarrow> bool \<Rightarrow> (stage \<times> js_error) option \<Rightarrow> string list" where
  "session_log r has_key has_identity fp =
    (if r = Some ''internal''
     then (case fp of
             Some (s, err) \<Rightarrow> internal_announced @ [report_line err]
           | None \<Rightarrow> internal_announced @ [''Internal search complete '' @ check_mark])
     else if r = Some ''external''
     then (if \<not> has_key then [''Preparing search...'', ''No auditor private key found'']
           else if \<not> has_identity then [''Preparing search...'', ''No auditor identity found'']
           else (case fp of
                   Some (s, err) \<Rightarrow> announced s @ [report_line err]
                 | None \<Rightarrow>
                     announced AwaitingResponse @ [''Encrypted results received '' @ check_mark]))
     else [''Preparing search...''])"

definition v_session_log :: "string option \<Rightarrow> bool \<Rightarrow> js_error option \<Rightarrow> string list" where
  "v_session_log r has_key fp =
    (if r = Some ''internal''
     then (case fp of
             Some err \<Rightarrow> v_announced r @ [''Error: '' @ message err]
           | None \<Rightarrow>
               v_announced r @
               [''Decrypting records...'', ''Internal search complete '' @ check_mark])
     else if r = Some ''external''
     then (if \<not> has_key then [''Preparing search...'', ''No auditor key found'']
           else (case fp of
                   Some err \<Rightarrow> v_announced r @ [''Error: '' @ message err]
                 | None \<Rightarrow>
                     v_announced r @
                     [''Matching encrypted index...'', ''External search complete '' @ check_mark]))
     else [''Preparing search...''])"

section \<open>Sample runs\<close>

text \<open>
  The scenario of the specification: identity \<open>A1\<close>, a private key, a service that
  answers with three matches. The sample collaborators answer as the real ones do at
  the two queries used below: \<open>sha256Hex\<close> returns the SHA-256 digests of \<open>a\<close> and of
  \<open>alice@example.com\<close>, which normalising leaves as they are. The signature and the
  record are placeholders.
\<close>

definition sample_meta :: search_meta where
  "sample_meta =
    \<lparr>total_matches = 3, returned_count = 3, execution_time_ms = 12, truncated = False\<rparr>"

definition sample_env :: "string search_env" where
  "sample_env =
    \<lparr>normalizeKeyword = (\<lambda>q. Inr q),
     sha256Hex = (\<lambda>n. Inr (if n = ''a''
        then ''ca978112ca1bbdcafac231b39a23dc4da786eff8147c4e72b9807785afee48bb''
        else ''ff8d9819fc0e12bf0d24892e45987e249a28dce836a85cad60e28eaaa8c6d976'')),
     signHashHex = (\<lambda>h k. Inr ''7d0a41''),
     api_post = (\<lambda>url body. Inr \<lparr>data_results = Some [''r1''], data_meta = Some sample_meta\<rparr>)\<rparr>"

definition sample_props :: search_props where
  "sample_props =
    \<lparr>role = Some ''external'',
     auditor = Some \<lparr>auditor_id = ''A1'', name = ''Auditor One'', active_key_version = 1\<rparr>,
     privateKey = Some ''PRIVATE-KEY''\<rparr>"

definition v_sample_env :: "string variant_env" where
  "v_sample_env =
    \<lparr>stored_private_key = Some ''PRIVATE-KEY'',
     internalSearch = (\<lambda>body. Inr \<lparr>svc_results = Some [''r1''], svc_meta = Some sample_meta\<rparr>),
     externalSearch = (\<lambda>q k. Inr \<lparr>svc_results = Some [''r1''], svc_meta = Some sample_meta\<rparr>)\<rparr>"

text \<open>A metrics service that answers every URL with a count of five documents.\<close>

definition sample_api_get :: "string \<Rightarrow> js_error + metrics_data option" where
  "sample_api_get url = Inr (Some (empty_object\<lparr>total_documents := Some 5\<rparr>))"

text \<open>Two thrown values: one without a response, one carrying a structured error.\<close>

definition network_error :: js_error where
  "network_error = \<lparr>message = ''Network Error'', response_error = None\<rparr>"

definition service_error :: js_error where
  "service_error =
    \<lparr>message = ''Request failed with status code 403'',
     response_error =
       Some \<lparr>code = Str ''INVALID_SIGNATURE'', detail = ''signature does not verify''\<rparr>\<rparr>"

section \<open>The empty query\<close>

text \<open>
  C9. For every role, \<open>handleSearch\<close> called while the query is the empty string does
  nothing: results, meta, logs and loading (the whole state) are unchanged and no
  network call is made. This holds for \<open>SearchPage.jsx\<close> and for the variant.
\<close>

theorem empty_query_is_noop:
  "(query st = [] \<longrightarrow>
      handleSearch env props st = \<lparr>final = st, calls = [], console = []\<rparr>) \<and>
   (v_query vst = [] \<longrightarrow>
      v_handleSearch venv r vst = \<lparr>v_final = vst, v_calls = [], v_console = []\<rparr>)"
  by (simp add: handleSearch_def v_handleSearch_def)

theorem empty_query_is_noop_witness:
  "query (initial_state :: string search_state) = [] \<and>
   handleSearch sample_env sample_props initial_state =
     \<lparr>final = initial_state, calls = [], console = []\<rparr> \<and>
   v_query (v_initial_state :: string variant_state) = [] \<and>
   v_handleSearch v_sample_env (Some ''external'') v_initial_state =
     \<lparr>v_final = v_initial_state, v_calls = [], v_console = []\<rparr>"
  using empty_query_is_noop [of initial_state sample_env sample_props v_initial_state
      v_sample_env "Some ''external''"]
  by (simp add: initial_state_def v_initial_state_def)

section \<open>Fail-fast checks of the external search\<close>

text \<open>
  C2. An external search started (the query is not empty) while no private key is
  present goes straight from preparing to the missing-key line, which differs from the
  missing-identity line, and makes no network call. In \<open>SearchPage.jsx\<close> the key is the
  \<open>privateKey\<close> prop; in the variant it is the stored item, and the call that is not
  made is the one to \<open>externalSearch\<close>.
\<close>

theorem missing_private_key_fails_fast:
  "(query st \<noteq> [] \<and> role props = Some ''external'' \<and> \<not> truthy (privateKey props) \<longrightarrow>
      handleSearch env props st =
        \<lparr>final = st\<lparr>loading := False, results := [], meta := None,
                     logs := [''Preparing search...'', ''No auditor private key found'']\<rparr>,
         calls = [], console = []\<rparr>) \<and>
   (v_query vst \<noteq> [] \<and> \<not> truthy (stored_private_key venv) \<longrightarrow>
      v_handleSearch venv (Some ''external'') vst =
        \<lparr>v_final = vst\<lparr>v_loading := False, v_results := [], v_meta := None,
                        v_logs := [''Preparing search...'', ''No auditor key found'']\<rparr>,
         v_calls = [], v_console = []\<rparr>) \<and>
   ''No auditor private key found'' \<noteq> ''No auditor identity found''"
  by (simp add: handleSearch_def external_search_def add_log_def
      v_handleSearch_def v_external_search_def v_add_log_def)

theorem missing_private_key_fails_fast_witness:
  "handleSearch sample_env (sample_props\<lparr>privateKey := None\<rparr>)
      (initial_state\<lparr>query := ''alice@example.com''\<rparr>) =
     \<lparr>final = initial_state\<lparr>query := ''alice@example.com'', loading := False, results := [],
                   meta := None,
                   logs := [''Preparing search...'', ''No auditor private key found'']\<rparr>,
      calls = [], console = []\<rparr> \<and>
   v_handleSearch (v_sample_env\<lparr>stored_private_key := None\<rparr>) (Some ''external'')
      (v_initial_state\<lparr>v_query := ''alice@example.com''\<rparr>) =
     \<lparr>v_final = v_initial_state\<lparr>v_query := ''alice@example.com'', v_loading := False,
                     v_results := [], v_meta := None,
                     v_logs := [''Preparing search...'', ''No auditor key found'']\<rparr>,
      v_calls = [], v_console = []\<rparr>"
  using missing_private_key_fails_fast
    [of "initial_state\<lparr>query := ''alice@example.com''\<rparr>" "sample_props\<lparr>privateKey := None\<rparr>"
        sample_env "v_initial_state\<lparr>v_query := ''alice@example.com''\<rparr>"
        "v_sample_env\<lparr>stored_private_key := None\<rparr>"]
  by (simp add: sample_props_def v_sample_env_def truthy_def)

text \<open>
  C3 (as amended). An external search started (the query is not empty) while no auditor
  identity is present makes no network call. When a private key is present the flow goes
  straight from preparing to the missing-identity line; when the key is absent too, the
  key is checked first and the missing-key line is the one reported.
\<close>

theorem missing_identity_fails_fast:
  "query st \<noteq> [] \<and> role props = Some ''external'' \<and> auditor props = None \<longrightarrow>
     handleSearch env props st =
       \<lparr>final = st\<lparr>loading := False, results := [], meta := None,
                    logs := [''Preparing search...'',
                             if truthy (privateKey props) then ''No auditor identity found''
                             else ''No auditor private key found'']\<rparr>,
        calls = [], console = []\<rparr>"
  by (auto simp: handleSearch_def external_search_def add_log_def truthy_def split: option.splits)

theorem missing_identity_fails_fast_witness:
  "handleSearch sample_env (sample_props\<lparr>auditor := None\<rparr>)
      (initial_state\<lparr>query := ''alice@example.com''\<rparr>) =
     \<lparr>final = initial_state\<lparr>query := ''alice@example.com'', loading := False, results := [],
                   meta := None,
                   logs := [''Preparing search...'', ''No auditor identity found'']\<rparr>,
      calls = [], console = []\<rparr>"
  using missing_identity_fails_fast
    [of "initial_state\<lparr>query := ''alice@example.com''\<rparr>" "sample_props\<lparr>auditor := None\<rparr>"
        sample_env]
  by (simp add: sample_props_def truthy_def)

text \<open>
  With neither a private key nor an identity, the line reported is the missing-key
  line, not the missing-identity line the claim promises.
\<close>

theorem missing_identity_counterexample:
  "auditor (sample_props\<lparr>auditor := None, privateKey := None\<rparr>) = None \<and>
   logs (final (handleSearch sample_env (sample_props\<lparr>auditor := None, privateKey := None\<rparr>)
      (initial_state\<lparr>query := ''alice@example.com''\<rparr>))) =
     [''Preparing search...'', ''No auditor private key found'']"
  by (simp add: handleSearch_def external_search_def add_log_def truthy_def sample_props_def
      initial_state_def)

section \<open>The external request\<close>

text \<open>
  C1 (as amended). Every request an external-role search makes is one post to
  \<open>/api/search/external/\<close> whose body has exactly the three fields \<open>auditor_id\<close>,
  \<open>keyword_hash\<close> and \<open>signature\<close>, holding the identity's id, the hash of the normalised
  query and the signature of that hash under the private key: the query enters the body
  only through the hash and the signature.
\<close>

theorem external_request_body:
  assumes "role props = Some ''external''"
    and "(url, body) \<in> set (calls (handleSearch env props st))"
  shows "url = ''/api/search/external/'' \<and>
     calls (handleSearch env props st) = [(url, body)] \<and>
     map fst body = [''auditor_id'', ''keyword_hash'', ''signature''] \<and>
     (\<exists>aud key normalized keywordHash signature.
        auditor props = Some aud \<and> privateKey props = Some key \<and>
        normalizeKeyword env (query st) = Inr normalized \<and>
        sha256Hex env normalized = Inr keywordHash \<and>
        signHashHex env keywordHash key = Inr signature \<and>
        body = [(''auditor_id'', auditor_id aud), (''keyword_hash'', keywordHash),
                (''signature'', signature)])"
  using assms
  by (auto simp: handleSearch_def external_search_def Let_def
      split: if_splits option.splits sum.splits prod.splits)

theorem external_request_body_witness:
  "role sample_props = Some ''external'' \<and>
   (''/api/search/external/'',
    [(''auditor_id'', ''A1''),
     (''keyword_hash'', ''ff8d9819fc0e12bf0d24892e45987e249a28dce836a85cad60e28eaaa8c6d976''),
     (''signature'', ''7d0a41'')])
     \<in> set (calls (handleSearch sample_env sample_props
                (initial_state\<lparr>query := ''alice@example.com''\<rparr>))) \<and>
   calls (handleSearch sample_env sample_props (initial_state\<lparr>query := ''alice@example.com''\<rparr>)) =
     [(''/api/search/external/'',
       [(''auditor_id'', ''A1''),
        (''keyword_hash'', ''ff8d9819fc0e12bf0d24892e45987e249a28dce836a85cad60e28eaaa8c6d976''),
        (''signature'', ''7d0a41'')])]"
proof -
  have r: "role sample_props = Some ''external''"
    by (simp add: sample_props_def)
  have m: "(''/api/search/external/'',
    [(''auditor_id'', ''A1''),
     (''keyword_hash'', ''ff8d9819fc0e12bf0d24892e45987e249a28dce836a85cad60e28eaaa8c6d976''),
     (''signature'', ''7d0a41'')])
     \<in> set (calls (handleSearch sample_env sample_props
                (initial_state\<lparr>query := ''alice@example.com''\<rparr>)))"
    by (simp add: handleSearch_def external_search_def sample_env_def sample_props_def
        initial_state_def truthy_def add_log_def)
  from external_request_body [OF r m] r m show ?thesis by simp
qed

text \<open>
  The serialised body can contain the raw query: for the query \<open>a\<close> the body posted is
  the one below, and \<open>a\<close> occurs in it (in the field name \<open>auditor_id\<close> and among the
  hex digits of the hash).
\<close>

theorem serialized_body_counterexample:
  "query (initial_state\<lparr>query := ''a''\<rparr> :: string search_state) = ''a'' \<and>
   calls (handleSearch sample_env sample_props (initial_state\<lparr>query := ''a''\<rparr>)) =
     [(''/api/search/external/'',
       [(''auditor_id'', ''A1''),
        (''keyword_hash'', ''ca978112ca1bbdcafac231b39a23dc4da786eff8147c4e72b9807785afee48bb''),
        (''signature'', ''7d0a41'')])] \<and>
   sublist ''a''
     (JSON_stringify
        [(''auditor_id'', ''A1''),
         (''keyword_hash'', ''ca978112ca1bbdcafac231b39a23dc4da786eff8147c4e72b9807785afee48bb''),
         (''signature'', ''7d0a41'')])"
proof -
  have "calls (handleSearch sample_env sample_props (initial_state\<lparr>query := ''a''\<rparr>)) =
     [(''/api/search/external/'',
       [(''auditor_id'', ''A1''),
        (''keyword_hash'', ''ca978112ca1bbdcafac231b39a23dc4da786eff8147c4e72b9807785afee48bb''),
        (''signature'', ''7d0a41'')])]"
    by (simp add: handleSearch_def external_search_def sample_env_def sample_props_def
        initial_state_def truthy_def add_log_def)
  moreover have "sublist ''a''
     (JSON_stringify
        [(''auditor_id'', ''A1''),
         (''keyword_hash'', ''ca978112ca1bbdcafac231b39a23dc4da786eff8147c4e72b9807785afee48bb''),
         (''signature'', ''7d0a41'')])"
    by (simp add: JSON_stringify_def json_string_def json_escape_def sublist_Cons_right)
  ultimately show ?thesis by simp
qed

section \<open>What an external search shows\<close>




text \<open>
  C6 (as amended). For the external role the page rendered after a successful search
  does display the value of \<open>meta.total_matches\<close> as the service sent it. In
  \<open>SearchPage.jsx\<close> it stands under Result Set Size, beside the query, the Match Exists
  flag, the padding note, the execution time and the visibility note, and nothing else
  on the page comes from the response: the page is the same whatever the results array
  holds. The variant shows it under Matches, with \<open>returned_count\<close>, the time and the
  truncation flag, and it also shows one box for every record returned.
\<close>

theorem external_view_entries:
  "(role props = Some ''external'' \<and> query st \<noteq> [] \<and>
    privateKey props = Some key \<and> key \<noteq> [] \<and> auditor props = Some aud \<and>
    normalizeKeyword env (query st) = Inr n \<and> sha256Hex env n = Inr h \<and>
    signHashHex env h key = Inr sg \<and>
    api_post env ''/api/search/external/''
      [(''auditor_id'', auditor_id aud), (''keyword_hash'', h), (''signature'', sg)] = Inr res \<and>
    data_meta res = Some m \<longrightarrow>
      SearchPage props (final (handleSearch env props st)) =
        \<lparr>subtitle = ''External Public-Key Audit Verification'',
         field_dropdown = None,
         input_value = query st,
         button_label = ''Search'',
         button_disabled = False,
         internal_results = None,
         external_panel =
           Some [\<lparr>label = ''Query'', info_value = JText (query st), highlight = None\<rparr>,
                 \<lparr>label = ''Match Exists'',
                  info_value =
                    JText (if 0 < total_matches m then ''YES '' @ check_mark else ''NO''),
                  highlight =
                    Some (if 0 < total_matches m then ''text-green-600''
                          else ''text-red-600'')\<rparr>,
                 \<lparr>label = ''Result Set Size'', info_value = JNumber (total_matches m),
                  highlight = None\<rparr>,
                 \<lparr>label = ''Response Padding'',
                  info_value = JText ''Fixed-size protected response'', highlight = None\<rparr>,
                 \<lparr>label = ''Execution Time'',
                  info_value = JNumberText (execution_time_ms m) '' ms'', highlight = None\<rparr>,
                 \<lparr>label = ''Data Visibility'',
                  info_value = JText ''Encrypted (Auditor-level access)'',
                  highlight = Some ''text-blue-600''\<rparr>],
         log_lines =
           [''Preparing search...'', ''Normalizing keyword...'',
            ''Hashing keyword (SHA256)...'', ''Signing hash with RSA private key...'',
            ''Sending request to /api/search/external/'',
            ''Encrypted results received '' @ check_mark]\<rparr>) \<and>
   (v_query vst \<noteq> [] \<and> stored_private_key venv = Some vkey \<and> vkey \<noteq> [] \<and>
    externalSearch venv (v_query vst) vkey = Inr vres \<and> svc_meta vres = Some vm \<longrightarrow>
      v_SearchPage (Some ''external'')
          (v_final (v_handleSearch venv (Some ''external'') vst)) =
        \<lparr>v_subtitle = ''External Public-Key Search'',
         v_input_value = v_query vst,
         v_button_label = ''Search'',
         v_button_disabled = False,
         v_results_panel =
           (case svc_results vres of
              None \<Rightarrow> NoResults ''No results yet''
            | Some rs \<Rightarrow> if rs = [] then NoResults ''No results yet'' else Records rs),
         v_log_lines =
           [''Preparing search...'', ''Hashing keyword (SHA256)...'', ''Signing hash (RSA)...'',
            ''Matching encrypted index...'', ''External search complete '' @ check_mark],
         v_metrics =
           Some [(''Matches'', JNumber (total_matches vm)),
                 (''Returned'', JNumber (returned_count vm)),
                 (''Time'', JNumberText (execution_time_ms vm) '' ms''),
                 (''Truncated'', JText (if truncated vm then ''Yes'' else ''No''))]\<rparr>)"
proof -
  have page: "SearchPage props (final (handleSearch env props st)) =
      \<lparr>subtitle = ''External Public-Key Audit Verification'',
       field_dropdown = None, input_value = query st, button_label = ''Search'',
       button_disabled = False, internal_results = None,
       external_panel = Some (external_infos (query st) m),
       log_lines =
         [''Preparing search...'', ''Normalizing keyword...'',
          ''Hashing keyword (SHA256)...'', ''Signing hash with RSA private key...'',
          ''Sending request to /api/search/external/'',
          ''Encrypted results received '' @ check_mark]\<rparr>"
    if "role props = Some ''external''" "query st \<noteq> []" "privateKey props = Some key"
      "key \<noteq> []" "auditor props = Some aud" "normalizeKeyword env (query st) = Inr n"
      "sha256Hex env n = Inr h" "signHashHex env h key = Inr sg"
      "api_post env ''/api/search/external/''
         [(''auditor_id'', auditor_id aud), (''keyword_hash'', h), (''signature'', sg)] = Inr res"
      "data_meta res = Some m"
    using that
    by (simp add: handleSearch_def external_search_def add_log_def truthy_def SearchPage_def)
  have variant: "v_SearchPage (Some ''external'')
        (v_final (v_handleSearch venv (Some ''external'') vst)) =
      \<lparr>v_subtitle = ''External Public-Key Search'', v_input_value = v_query vst,
       v_button_label = ''Search'', v_button_disabled = False,
       v_results_panel =
         (case svc_results vres of
            None \<Rightarrow> NoResults ''No results yet''
          | Some rs \<Rightarrow> if rs = [] then NoResults ''No results yet'' else Records rs),
       v_log_lines =
         [''Preparing search...'', ''Hashing keyword (SHA256)...'', ''Signing hash (RSA)...'',
          ''Matching encrypted index...'', ''External search complete '' @ check_mark],
       v_metrics =
         Some [(''Matches'', JNumber (total_matches vm)),
               (''Returned'', JNumber (returned_count vm)),
               (''Time'', JNumberText (execution_time_ms vm) '' ms''),
               (''Truncated'', JText (if truncated vm then ''Yes'' else ''No''))]\<rparr>"
    if "v_query vst \<noteq> []" "stored_private_key venv = Some vkey" "vkey \<noteq> []"
      "externalSearch venv (v_query vst) vkey = Inr vres" "svc_meta vres = Some vm"
    using that
    by (simp add: v_handleSearch_def v_external_search_def v_add_log_def truthy_def
        v_SearchPage_def results_or_empty_def split: option.splits)
  from page variant show ?thesis
    by (simp add: external_infos_def)
qed

theorem external_view_entries_witness:
  "SearchPage sample_props (final (handleSearch sample_env sample_props
      (initial_state\<lparr>query := ''alice@example.com''\<rparr>))) =
     \<lparr>subtitle = ''External Public-Key Audit Verification'',
      field_dropdown = None,
      input_value = ''alice@example.com'',
      button_label = ''Search'',
      button_disabled = False,
      internal_results = None,
      external_panel =
        Some [\<lparr>label = ''Query'', info_value = JText ''alice@example.com'', highlight = None\<rparr>,
              \<lparr>label = ''Match Exists'', info_value = JText (''YES '' @ check_mark),
               highlight = Some ''text-green-600''\<rparr>,
              \<lparr>label = ''Result Set Size'', info_value = JNumber 3, highlight = None\<rparr>,
              \<lparr>label = ''Response Padding'',
               info_value = JText ''Fixed-size protected response'', highlight = None\<rparr>,
              \<lparr>label = ''Execution Time'', info_value = JNumberText 12 '' ms'',
               highlight = None\<rparr>,
              \<lparr>label = ''Data Visibility'',
               info_value = JText ''Encrypted (Auditor-level access)'',
               highlight = Some ''text-blue-600''\<rparr>],
      log_lines =
        [''Preparing search...'', ''Normalizing keyword...'',
         ''Hashing keyword (SHA256)...'', ''Signing hash with RSA private key...'',
         ''Sending request to /api/search/external/'',
         ''Encrypted results received '' @ check_mark]\<rparr> \<and>
   v_SearchPage (Some ''external'')
      (v_final (v_handleSearch v_sample_env (Some ''external'')
         (v_initial_state\<lparr>v_query := ''alice@example.com''\<rparr>))) =
     \<lparr>v_subtitle = ''External Public-Key Search'',
      v_input_value = ''alice@example.com'',
      v_button_label = ''Search'',
      v_button_disabled = False,
      v_results_panel = Records [''r1''],
      v_log_lines =
        [''Preparing search...'', ''Hashing keyword (SHA256)...'', ''Signing hash (RSA)...'',
         ''Matching encrypted index...'', ''External search complete '' @ check_mark],
      v_metrics =
        Some [(''Matches'', JNumber 3), (''Returned'', JNumber 3),
              (''Time'', JNumberText 12 '' ms''), (''Truncated'', JText ''No'')]\<rparr>"
proof -
  have a: "role sample_props = Some ''external'' \<and>
      query (initial_state\<lparr>query := ''alice@example.com''\<rparr> :: string search_state) \<noteq> [] \<and>
      privateKey sample_props = Some ''PRIVATE-KEY'' \<and> ''PRIVATE-KEY'' \<noteq> [] \<and>
      auditor sample_props =
        Some \<lparr>auditor_id = ''A1'', name = ''Auditor One'', active_key_version = 1\<rparr> \<and>
      normalizeKeyword sample_env
        (query (initial_state\<lparr>query := ''alice@example.com''\<rparr> :: string search_state)) =
        Inr ''alice@example.com'' \<and>
      sha256Hex sample_env ''alice@example.com'' =
        Inr ''ff8d9819fc0e12bf0d24892e45987e249a28dce836a85cad60e28eaaa8c6d976'' \<and>
      signHashHex sample_env
        ''ff8d9819fc0e12bf0d24892e45987e249a28dce836a85cad60e28eaaa8c6d976'' ''PRIVATE-KEY'' =
        Inr ''7d0a41'' \<and>
      api_post sample_env ''/api/search/external/''
        [(''auditor_id'',
          auditor_id \<lparr>auditor_id = ''A1'', name = ''Auditor One'', active_key_version = 1\<rparr>),
         (''keyword_hash'',
          ''ff8d9819fc0e12bf0d24892e45987e249a28dce836a85cad60e28eaaa8c6d976''),
         (''signature'', ''7d0a41'')] =
        Inr \<lparr>data_results = Some [''r1''], data_meta = Some sample_meta\<rparr> \<and>
      data_meta \<lparr>data_results = Some [''r1''], data_meta = Some sample_meta\<rparr> =
        Some sample_meta"
    by (simp add: sample_props_def sample_env_def)
  have b: "v_query (v_initial_state\<lparr>v_query := ''alice@example.com''\<rparr> :: string variant_state)
        \<noteq> [] \<and>
      stored_private_key v_sample_env = Some ''PRIVATE-KEY'' \<and> ''PRIVATE-KEY'' \<noteq> [] \<and>
      externalSearch v_sample_env
        (v_query (v_initial_state\<lparr>v_query := ''alice@example.com''\<rparr> :: string variant_state))
        ''PRIVATE-KEY'' =
        Inr \<lparr>svc_results = Some [''r1''], svc_meta = Some sample_meta\<rparr> \<and>
      svc_meta \<lparr>svc_results = Some [''r1''], svc_meta = Some sample_meta\<rparr> = Some sample_meta"
    by (simp add: v_sample_env_def)
  from external_view_entries
    [of sample_props "initial_state\<lparr>query := ''alice@example.com''\<rparr>" "''PRIVATE-KEY''"
        "\<lparr>auditor_id = ''A1'', name = ''Auditor One'', active_key_version = 1\<rparr>"
        sample_env "''alice@example.com''"
        "''ff8d9819fc0e12bf0d24892e45987e249a28dce836a85cad60e28eaaa8c6d976''" "''7d0a41''"
        "\<lparr>data_results = Some [''r1''], data_meta = Some sample_meta\<rparr>" sample_meta
        "v_initial_state\<lparr>v_query := ''alice@example.com''\<rparr>" v_sample_env "''PRIVATE-KEY''"
        "\<lparr>svc_results = Some [''r1''], svc_meta = Some sample_meta\<rparr>" sample_meta]
    a b
  have "SearchPage sample_props (final (handleSearch sample_env sample_props
      (initial_state\<lparr>query := ''alice@example.com''\<rparr>))) =
     \<lparr>subtitle = ''External Public-Key Audit Verification'',
      field_dropdown = None,
      input_value = query (initial_state\<lparr>query := ''alice@example.com''\<rparr> :: string search_state),
      button_label = ''Search'',
      button_disabled = False,
      internal_results = None,
      external_panel =
        Some [\<lparr>label = ''Query'',
               info_value =
                 JText (query (initial_state\<lparr>query := ''alice@example.com''\<rparr>
                          :: string search_state)),
               highlight = None\<rparr>,
              \<lparr>label = ''Match Exists'',
               info_value =
                 JText (if 0 < total_matches sample_meta then ''YES '' @ check_mark else ''NO''),
               highlight =
                 Some (if 0 < total_matches sample_meta then ''text-green-600''
                       else ''text-red-600'')\<rparr>,
              \<lparr>label = ''Result Set Size'', info_value = JNumber (total_matches sample_meta),
               highlight = None\<rparr>,
              \<lparr>label = ''Response Padding'',
               info_value = JText ''Fixed-size protected response'', highlight = None\<rparr>,
              \<lparr>label = ''Execution Time'',
               info_value = JNumberText (execution_time_ms sample_meta) '' ms'',
               highlight = None\<rparr>,
              \<lparr>label = ''Data Visibility'',
               info_value = JText ''Encrypted (Auditor-level access)'',
               highlight = Some ''text-blue-600''\<rparr>],
      log_lines =
        [''Preparing search...'', ''Normalizing keyword...'',
         ''Hashing keyword (SHA256)...'', ''Signing hash with RSA private key...'',
         ''Sending request to /api/search/external/'',
         ''Encrypted results received '' @ check_mark]\<rparr> \<and>
   v_SearchPage (Some ''external'')
      (v_final (v_handleSearch v_sample_env (Some ''external'')
         (v_initial_state\<lparr>v_query := ''alice@example.com''\<rparr>))) =
     \<lparr>v_subtitle = ''External Public-Key Search'',
      v_input_value =
        v_query (v_initial_state\<lparr>v_query := ''alice@example.com''\<rparr> :: string variant_state),
      v_button_label = ''Search'',
      v_button_disabled = False,
      v_results_panel =
        (case svc_results \<lparr>svc_results = Some [''r1''], svc_meta = Some sample_meta\<rparr> of
           None \<Rightarrow> NoResults ''No results yet''
         | Some rs \<Rightarrow> if rs = [] then NoResults ''No results yet'' else Records rs),
      v_log_lines =
        [''Preparing search...'', ''Hashing keyword (SHA256)...'', ''Signing hash (RSA)...'',
         ''Matching encrypted index...'', ''External search complete '' @ check_mark],
      v_metrics =
        Some [(''Matches'', JNumber (total_matches sample_meta)),
              (''Returned'', JNumber (returned_count sample_meta)),
              (''Time'', JNumberText (execution_time_ms sample_meta) '' ms''),
              (''Truncated'', JText (if truncated sample_meta then ''Yes'' else ''No''))]\<rparr>"
    by blast
  then show ?thesis
    by (simp add: sample_meta_def)
qed

text \<open>
  After the sample search, whose response reports three matches, the external card
  holds a Result Set Size entry showing the number 3.
\<close>

theorem external_view_count_counterexample:
  "map_option (filter (\<lambda>i. label i = ''Result Set Size''))
      (external_panel (SearchPage sample_props (final (handleSearch sample_env sample_props
         (initial_state\<lparr>query := ''alice@example.com''\<rparr>))))) =
     Some [\<lparr>label = ''Result Set Size'', info_value = JNumber 3, highlight = None\<rparr>]"
  by (simp add: handleSearch_def external_search_def add_log_def truthy_def sample_props_def
      sample_env_def sample_meta_def initial_state_def SearchPage_def external_infos_def)

section \<open>Failures and the session log\<close>

text \<open>
  The log of a started search is the session log of its role, of the presence of a key
  and of an identity, and of its failure point.
\<close>

lemma handleSearch_session_log:
  assumes "query st \<noteq> []"
  shows "logs (final (handleSearch env props st)) =
     session_log (role props) (truthy (privateKey props)) (auditor props \<noteq> None)
       (failure_point env props st)"
proof -
  consider (internal) "role props = Some ''internal''"
    | (external) "role props = Some ''external''"
    | (other) "role props \<noteq> Some ''internal''" "role props \<noteq> Some ''external''"
    by blast
  then show ?thesis
  proof cases
    case internal
    with assms show ?thesis
      by (simp add: handleSearch_def internal_search_def add_log_def failure_point_def
          session_log_def internal_announced_def split: sum.splits)
  next
    case external
    with assms show ?thesis
      by (auto simp: handleSearch_def external_search_def add_log_def failure_point_def
          session_log_def truthy_def split: sum.splits option.splits)
  next
    case other
    with assms show ?thesis
      by (simp add: handleSearch_def session_log_def)
  qed
qed

lemma v_handleSearch_session_log:
  assumes "v_query st \<noteq> []"
  shows "v_logs (v_final (v_handleSearch env r st)) =
     v_session_log r (truthy (stored_private_key env)) (v_failure_point env r st)"
proof -
  consider (internal) "r = Some ''internal''"
    | (external) "r = Some ''external''"
    | (other) "r \<noteq> Some ''internal''" "r \<noteq> Some ''external''"
    by blast
  then show ?thesis
  proof cases
    case internal
    with assms show ?thesis
      by (simp add: v_handleSearch_def v_internal_search_def v_add_log_def v_failure_point_def
          v_session_log_def v_announced_def split: sum.splits)
  next
    case external
    with assms show ?thesis
      by (auto simp: v_handleSearch_def v_external_search_def v_add_log_def
          v_failure_point_def v_session_log_def v_announced_def truthy_def
          split: sum.splits option.splits)
  next
    case other
    with assms show ?thesis
      by (simp add: v_handleSearch_def v_session_log_def)
  qed
qed



text \<open>
  C7 (as amended). In \<open>SearchPage.jsx\<close> a search that fails (a collaborator throws
  \<open>err\<close>) appends exactly one line to the announcements written so far: when \<open>err\<close>
  carries a structured service error with the code \<open>c\<close>, the line is \<open>Error:\<close> followed
  by \<open>c\<close> and nothing else of the payload; when it carries no structured error, the line
  is the generic one. In the variant every failure appends \<open>Error:\<close> followed by the
  message of the thrown value, structured error or not.
\<close>

theorem failure_report_line:
  "(query st \<noteq> [] \<and> failure_point env props st = Some (s, err) \<longrightarrow>
      (response_error err = Some e \<and> code e = Str c \<longrightarrow>
         logs (final (handleSearch env props st)) =
           (if role props = Some ''internal'' then internal_announced else announced s) @
           [''Error: '' @ c]) \<and>
      (response_error err = None \<longrightarrow>
         logs (final (handleSearch env props st)) =
           (if role props = Some ''internal'' then internal_announced else announced s) @
           [''Unknown error occurred''])) \<and>
   (v_query vst \<noteq> [] \<and> v_failure_point venv r vst = Some verr \<longrightarrow>
      v_logs (v_final (v_handleSearch venv r vst)) =
        v_announced r @ [''Error: '' @ message verr])"
proof -
  have page: "logs (final (handleSearch env props st)) =
      (if role props = Some ''internal'' then internal_announced else announced s) @
      [report_line err]"
    if "query st \<noteq> []" "failure_point env props st = Some (s, err)"
  proof -
    have "role props = Some ''internal'' \<or>
        (role props = Some ''external'' \<and> truthy (privateKey props) \<and> auditor props \<noteq> None)"
      using that(2)
      by (auto simp: failure_point_def truthy_def split: if_splits option.splits)
    with that show ?thesis
      using handleSearch_session_log [of st env props]
      by (auto simp: session_log_def)
  qed
  have variant: "v_logs (v_final (v_handleSearch venv r vst)) =
      v_announced r @ [''Error: '' @ message verr]"
    if "v_query vst \<noteq> []" "v_failure_point venv r vst = Some verr"
  proof -
    have "r = Some ''internal'' \<or> (r = Some ''external'' \<and> truthy (stored_private_key venv))"
      using that(2)
      by (auto simp: v_failure_point_def truthy_def split: if_splits option.splits)
    with that show ?thesis
      using v_handleSearch_session_log [of vst venv r]
      by (auto simp: v_session_log_def)
  qed
  have line: "report_line err = ''Error: '' @ c" if "response_error err = Some e" "code e = Str c"
    using that by (simp add: report_line_def template_text_def)
  have generic: "report_line err = ''Unknown error occurred''" if "response_error err = None"
    using that by (simp add: report_line_def)
  from page variant line generic show ?thesis
    by metis
qed

theorem failure_report_line_witness:
  "logs (final (handleSearch (sample_env\<lparr>api_post := (\<lambda>url body. Inl service_error)\<rparr>)
      sample_props (initial_state\<lparr>query := ''alice@example.com''\<rparr>))) =
     [''Preparing search...'', ''Normalizing keyword...'', ''Hashing keyword (SHA256)...'',
      ''Signing hash with RSA private key...'', ''Sending request to /api/search/external/'',
      ''Error: INVALID_SIGNATURE''] \<and>
   logs (final (handleSearch (sample_env\<lparr>sha256Hex := (\<lambda>n. Inl network_error)\<rparr>)
      sample_props (initial_state\<lparr>query := ''alice@example.com''\<rparr>))) =
     [''Preparing search...'', ''Normalizing keyword...'', ''Hashing keyword (SHA256)...'',
      ''Unknown error occurred''] \<and>
   v_logs (v_final (v_handleSearch (v_sample_env\<lparr>externalSearch := (\<lambda>q k. Inl network_error)\<rparr>)
      (Some ''external'') (v_initial_state\<lparr>v_query := ''alice@example.com''\<rparr>))) =
     [''Preparing search...'', ''Hashing keyword (SHA256)...'', ''Signing hash (RSA)...'',
      ''Error: Network Error'']"
proof -
  have q: "query (initial_state\<lparr>query := ''alice@example.com''\<rparr> :: string search_state) \<noteq> []"
    "v_query (v_initial_state\<lparr>v_query := ''alice@example.com''\<rparr> :: string variant_state) \<noteq> []"
    by simp_all
  have f: "failure_point (sample_env\<lparr>api_post := (\<lambda>url body. Inl service_error)\<rparr>) sample_props
        (initial_state\<lparr>query := ''alice@example.com''\<rparr>) = Some (AwaitingResponse, service_error)"
    "failure_point (sample_env\<lparr>sha256Hex := (\<lambda>n. Inl network_error)\<rparr>) sample_props
        (initial_state\<lparr>query := ''alice@example.com''\<rparr>) = Some (Hashing, network_error)"
    "v_failure_point (v_sample_env\<lparr>externalSearch := (\<lambda>q k. Inl network_error)\<rparr>)
        (Some ''external'') (v_initial_state\<lparr>v_query := ''alice@example.com''\<rparr>) =
       Some network_error"
    by (simp_all add: failure_point_def v_failure_point_def sample_env_def sample_props_def
        v_sample_env_def)
  have e: "response_error service_error =
      Some \<lparr>code = Str ''INVALID_SIGNATURE'', detail = ''signature does not verify''\<rparr>"
    "code \<lparr>code = Str ''INVALID_SIGNATURE'', detail = ''signature does not verify''\<rparr> =
      Str ''INVALID_SIGNATURE''"
    "response_error network_error = None" "message network_error = ''Network Error''"
    "role sample_props \<noteq> Some ''internal''"
    by (simp_all add: service_error_def network_error_def sample_props_def)
  from failure_report_line
    [of "initial_state\<lparr>query := ''alice@example.com''\<rparr>"
        "sample_env\<lparr>api_post := (\<lambda>url body. Inl service_error)\<rparr>" sample_props
        AwaitingResponse service_error
        "\<lparr>code = Str ''INVALID_SIGNATURE'', detail = ''signature does not verify''\<rparr>"
        "''INVALID_SIGNATURE''"
        "v_initial_state\<lparr>v_query := ''alice@example.com''\<rparr>"
        "v_sample_env\<lparr>externalSearch := (\<lambda>q k. Inl network_error)\<rparr>" "Some ''external''"
        network_error]
    failure_report_line
    [of "initial_state\<lparr>query := ''alice@example.com''\<rparr>"
        "sample_env\<lparr>sha256Hex := (\<lambda>n. Inl network_error)\<rparr>" sample_props
        Hashing network_error
        "\<lparr>code = Str ''INVALID_SIGNATURE'', detail = ''signature does not verify''\<rparr>"
        "''INVALID_SIGNATURE''"
        "v_initial_state\<lparr>v_query := ''alice@example.com''\<rparr>"
        "v_sample_env\<lparr>externalSearch := (\<lambda>q k. Inl network_error)\<rparr>" "Some ''external''"
        network_error]
    q f e
  show ?thesis
    by (simp add: v_announced_def)
qed

text \<open>
  In the variant a failure that carries the structured error \<open>INVALID_SIGNATURE\<close> is
  reported by the message of the thrown value, and the code is not in the line.
\<close>

theorem failure_report_counterexample:
  "v_failure_point (v_sample_env\<lparr>externalSearch := (\<lambda>q k. Inl service_error)\<rparr>)
      (Some ''external'') (v_initial_state\<lparr>v_query := ''alice@example.com''\<rparr>) =
     Some service_error \<and>
   response_error service_error =
     Some \<lparr>code = Str ''INVALID_SIGNATURE'', detail = ''signature does not verify''\<rparr> \<and>
   v_logs (v_final (v_handleSearch
      (v_sample_env\<lparr>externalSearch := (\<lambda>q k. Inl service_error)\<rparr>)
      (Some ''external'') (v_initial_state\<lparr>v_query := ''alice@example.com''\<rparr>))) =
     [''Preparing search...'', ''Hashing keyword (SHA256)...'', ''Signing hash (RSA)...'',
      ''Error: Request failed with status code 403'']"
  by (simp add: v_handleSearch_def v_external_search_def v_add_log_def truthy_def
      v_sample_env_def v_initial_state_def service_error_def v_failure_point_def)

lemma announced_inj: "announced s' = announced s \<Longrightarrow> s' = s"
  by (cases s; cases s') simp_all

text \<open>
  C8 (as amended). An external search that fails at a stage of the sequence moves
  directly to the failed state: no later stage is announced or run, no request is made
  unless the failing stage is the request itself, the caught value is reported by the
  line of the \<open>catch\<close> block and loading ends. That line does not name the stage; the
  stage is identified by the session log, which holds exactly the announcements up to
  the failing stage followed by the report, and the announcements differ from stage to
  stage.
\<close>

theorem failure_moves_to_failed:
  assumes "query st \<noteq> []" and "role props = Some ''external''"
    and "fails_at env props st s err"
  shows "logs (final (handleSearch env props st)) = announced s @ [report_line err] \<and>
     loading (final (handleSearch env props st)) = False \<and>
     results (final (handleSearch env props st)) = [] \<and>
     meta (final (handleSearch env props st)) = None \<and>
     console (handleSearch env props st) = [err] \<and>
     (s \<noteq> AwaitingResponse \<longrightarrow> calls (handleSearch env props st) = []) \<and>
     (\<forall>s'. announced s' = announced s \<longrightarrow> s' = s)"
proof -
  obtain key aud where k: "privateKey props = Some key" "key \<noteq> []" "auditor props = Some aud"
    using assms(3) by (auto simp: fails_at_def split: option.splits)
  have run: "logs (final (handleSearch env props st)) = announced s @ [report_line err] \<and>
     loading (final (handleSearch env props st)) = False \<and>
     results (final (handleSearch env props st)) = [] \<and>
     meta (final (handleSearch env props st)) = None \<and>
     console (handleSearch env props st) = [err] \<and>
     (s \<noteq> AwaitingResponse \<longrightarrow> calls (handleSearch env props st) = [])"
    using assms k
    by (cases s)
      (auto simp: fails_at_def handleSearch_def external_search_def add_log_def truthy_def
        split: sum.splits)
  with announced_inj show ?thesis by blast
qed

theorem failure_moves_to_failed_witness:
  "fails_at (sample_env\<lparr>sha256Hex := (\<lambda>n. Inl network_error)\<rparr>) sample_props
      (initial_state\<lparr>query := ''alice@example.com''\<rparr>) Hashing network_error \<and>
   logs (final (handleSearch (sample_env\<lparr>sha256Hex := (\<lambda>n. Inl network_error)\<rparr>) sample_props
      (initial_state\<lparr>query := ''alice@example.com''\<rparr>))) =
     [''Preparing search...'', ''Normalizing keyword...'', ''Hashing keyword (SHA256)...'',
      ''Unknown error occurred''] \<and>
   calls (handleSearch (sample_env\<lparr>sha256Hex := (\<lambda>n. Inl network_error)\<rparr>) sample_props
      (initial_state\<lparr>query := ''alice@example.com''\<rparr>)) = [] \<and>
   fails_at (sample_env\<lparr>api_post := (\<lambda>url body. Inl service_error)\<rparr>) sample_props
      (initial_state\<lparr>query := ''alice@example.com''\<rparr>) AwaitingResponse service_error \<and>
   logs (final (handleSearch (sample_env\<lparr>api_post := (\<lambda>url body. Inl service_error)\<rparr>)
      sample_props (initial_state\<lparr>query := ''alice@example.com''\<rparr>))) =
     [''Preparing search...'', ''Normalizing keyword...'', ''Hashing keyword (SHA256)...'',
      ''Signing hash with RSA private key...'', ''Sending request to /api/search/external/'',
      ''Error: INVALID_SIGNATURE'']"
proof -
  have q: "query (initial_state\<lparr>query := ''alice@example.com''\<rparr> :: string search_state) \<noteq> []"
    by simp
  have r: "role sample_props = Some ''external''"
    by (simp add: sample_props_def)
  have h: "fails_at (sample_env\<lparr>sha256Hex := (\<lambda>n. Inl network_error)\<rparr>) sample_props
      (initial_state\<lparr>query := ''alice@example.com''\<rparr>) Hashing network_error"
    by (simp add: fails_at_def sample_env_def sample_props_def initial_state_def)
  have a: "fails_at (sample_env\<lparr>api_post := (\<lambda>url body. Inl service_error)\<rparr>) sample_props
      (initial_state\<lparr>query := ''alice@example.com''\<rparr>) AwaitingResponse service_error"
    by (simp add: fails_at_def sample_env_def sample_props_def initial_state_def)
  from failure_moves_to_failed [OF q r h] failure_moves_to_failed [OF q r a] h a
  show ?thesis
    by (simp add: report_line_def template_text_def network_error_def service_error_def)
qed

text \<open>
  A failure while hashing and a failure while signing append the same line, so the
  appended report does not tell the two stages apart.
\<close>

theorem failure_stage_counterexample:
  "fails_at (sample_env\<lparr>sha256Hex := (\<lambda>n. Inl network_error)\<rparr>) sample_props
      (initial_state\<lparr>query := ''alice@example.com''\<rparr>) Hashing network_error \<and>
   fails_at
      (sample_env\<lparr>signHashHex :=
         (\<lambda>h k. Inl \<lparr>message = ''Invalid key'', response_error = None\<rparr>)\<rparr>)
      sample_props (initial_state\<lparr>query := ''alice@example.com''\<rparr>) Signing
      \<lparr>message = ''Invalid key'', response_error = None\<rparr> \<and>
   last (logs (final (handleSearch (sample_env\<lparr>sha256Hex := (\<lambda>n. Inl network_error)\<rparr>)
      sample_props (initial_state\<lparr>query := ''alice@example.com''\<rparr>)))) =
     ''Unknown error occurred'' \<and>
   last (logs (final (handleSearch
      (sample_env\<lparr>signHashHex :=
         (\<lambda>h k. Inl \<lparr>message = ''Invalid key'', response_error = None\<rparr>)\<rparr>)
      sample_props (initial_state\<lparr>query := ''alice@example.com''\<rparr>)))) =
     ''Unknown error occurred''"
  by (simp add: fails_at_def handleSearch_def external_search_def add_log_def truthy_def
      sample_env_def sample_props_def initial_state_def network_error_def report_line_def)

section \<open>Role resolution of MetricsPage\<close>

lemma isInternal_iff:
  "isInternal r \<longleftrightarrow>
     r = None \<or> r = Some [] \<or> (\<exists>s. r = Some s \<and> toLowerCase s = ''internal'')"
  by (cases r) (auto simp: isInternal_def resolvedRole_def truthy_def toLowerCase_def)

lemma toLowerCase_samples:
  "toLowerCase ''External'' = ''external''" "toLowerCase ''INTERNAL'' = ''internal''"
  by code_simp+

text \<open>
  C10 (as amended). Role resolution in \<open>MetricsPage\<close> defaults to internal and ignores
  case: when the role prop is null or undefined, or is the empty string, or its lowercase
  form is \<open>internal\<close>, \<open>fetchMetrics\<close> requests \<open>/api/metrics/internal/\<close>; for every other
  role it requests \<open>/api/metrics/external/\<close>, and once that request has answered (and no
  earlier error is set) the page renders the restricted external view.
\<close>

theorem metrics_role_resolution:
  "m_calls (fetchMetrics api_get r st) =
     [if r = None \<or> r = Some [] \<or> (\<exists>s. r = Some s \<and> toLowerCase s = ''internal'')
      then ''/api/metrics/internal/'' else ''/api/metrics/external/''] \<and>
   (\<not> (r = None \<or> r = Some [] \<or> (\<exists>s. r = Some s \<and> toLowerCase s = ''internal'')) \<and>
    api_get ''/api/metrics/external/'' = Inr d \<and> \<not> truthy (m_error st) \<longrightarrow>
      MetricsPage r (m_final (fetchMetrics api_get r st)) =
        ExternalView ''External view (restricted)''
          (safe (case d of Some v \<Rightarrow> total_documents v | None \<Rightarrow> None)))"
proof -
  have url: "m_calls (fetchMetrics api_get r st) =
     [if isInternal r then ''/api/metrics/internal/'' else ''/api/metrics/external/'']"
    by (simp add: fetchMetrics_def Let_def split: sum.splits)
  have view: "MetricsPage r (m_final (fetchMetrics api_get r st)) =
      ExternalView ''External view (restricted)''
        (safe (case d of Some v \<Rightarrow> total_documents v | None \<Rightarrow> None))"
    if "\<not> isInternal r" "api_get ''/api/metrics/external/'' = Inr d" "\<not> truthy (m_error st)"
    using that
    by (simp add: fetchMetrics_def MetricsPage_def empty_object_def Let_def
        split: option.splits)
  from url view show ?thesis
    unfolding isInternal_iff by blast
qed

theorem metrics_role_resolution_witness:
  "m_calls (fetchMetrics sample_api_get (Some ''INTERNAL'') initial_metrics_state) =
     [''/api/metrics/internal/''] \<and>
   m_calls (fetchMetrics sample_api_get (Some ''External'') initial_metrics_state) =
     [''/api/metrics/external/''] \<and>
   MetricsPage (Some ''External'')
      (m_final (fetchMetrics sample_api_get (Some ''External'') initial_metrics_state)) =
     ExternalView ''External view (restricted)'' 5"
  using metrics_role_resolution [of sample_api_get "Some ''INTERNAL''" initial_metrics_state]
    metrics_role_resolution [of sample_api_get "Some ''External''" initial_metrics_state
      "Some (empty_object\<lparr>total_documents := Some 5\<rparr>)"]
  by (simp add: toLowerCase_samples sample_api_get_def initial_metrics_state_def truthy_def
      safe_def empty_object_def)

text \<open>
  The empty string is a role that is neither null nor undefined and whose lowercase
  form is not \<open>internal\<close>, yet the page requests the internal metrics for it.
\<close>

theorem metrics_role_counterexample:
  "Some '''' \<noteq> (None :: string option) \<and> toLowerCase '''' \<noteq> ''internal'' \<and>
   m_calls (fetchMetrics sample_api_get (Some '''') initial_metrics_state) =
     [''/api/metrics/internal/'']"
  by (simp add: fetchMetrics_def isInternal_def resolvedRole_def truthy_def toLowerCase_def
      sample_api_get_def)

end
